theory Spec2Isabelle
  imports Main "HOL-Library.Sublist"
begin

section \<open>The provisioning script \<open>scripts/init-dynamodb-local.py\<close>\<close>

text \<open>
  The script is one module-level sequence of statements: an import block that installs the
  SDK when it is missing (lines 8-16), the construction of a client (lines 19-25), and a
  \<open>try\<close> block that creates a table and enables TTL on it (lines 29-59), followed by two
  \<open>except\<close> clauses (lines 61-71).

  Everything outside the script is a parameter of the model:
  \<^item> the host (\<open>host\<close>): whether each import, the \<open>pip\<close> subprocess and the construction of
    the client return or raise;
  \<^item> the endpoint (\<open>endpoint\<close>): a function that answers each request of the client, either
    with a response or with an exception, and moves to a new state of its own.

  Exceptions are values. The ones modelled are instances of Python's \<open>Exception\<close>, which is
  what the SDK, the import system and \<open>subprocess\<close> raise; interrupts delivered from outside
  (\<open>KeyboardInterrupt\<close>) are no part of the model. \<open>print\<close> is taken to succeed, and the
  imports of the standard modules \<open>sys\<close> and \<open>subprocess\<close> too.
\<close>

subsection \<open>Python values\<close>

text \<open>
  A response of the SDK is a dictionary of dictionaries of strings, as far as the script
  reads it: \<open>response['TableDescription']['TableArn']\<close>, \<open>e.response['Error']['Code']\<close>.
\<close>

type_synonym py_dict = "string \<rightharpoonup> (string \<rightharpoonup> string)"

text \<open>
  Every exception carries its text, the string that \<open>str(e)\<close> returns. \<open>ImportError\<close> is what
  the first \<open>except\<close> clause catches, \<open>ClientError\<close> (with the \<open>response\<close> attribute) what the
  second one does. \<open>KeyError\<close> is raised by a subscript on a missing key, and by whatever else
  raises one. \<open>OtherException\<close> stands for every other class.
\<close>

datatype exn =
    is_ImportError: ImportError string
  | is_ClientError: ClientError py_dict string
  | is_KeyError: KeyError string
  | is_OtherException: OtherException string

text \<open>\<open>str(e)\<close>, as the f-strings of lines 67 and 70 format it: the text the exception
  carries.\<close>

fun str :: "exn \<Rightarrow> string" where
  "str (ImportError t) = t"
| "str (ClientError r t) = t"
| "str (KeyError t) = t"
| "str (OtherException t) = t"

text \<open>
  \<open>repr(k)\<close> for a string \<open>k\<close> of ASCII characters, which is what a key written in the script
  is (the type \<open>String.literal\<close> holds no other character). The quote is the single one, or
  the double one when \<open>k\<close> holds a single quote and no double quote. The quote and the
  backslash are escaped with a backslash; tab, line feed and carriage return are written
  \<open>\t\<close>, \<open>\n\<close> and \<open>\r\<close>; the other characters below the space, and DEL, are written \<open>\xhh\<close> with two
  lower-case hexadecimal digits; every other character is written as it is.
\<close>

definition hex_digit :: "nat \<Rightarrow> char" where
  "hex_digit n = ''0123456789abcdef'' ! (n mod 16)"

definition repr_char :: "char \<Rightarrow> char \<Rightarrow> string" where
  "repr_char quote c =
     (if c = quote \<or> c = CHR 0x5C then [CHR 0x5C, c]
      else if c = CHR 0x09 then [CHR 0x5C, CHR ''t'']
      else if c = CHR 0x0A then [CHR 0x5C, CHR ''n'']
      else if c = CHR 0x0D then [CHR 0x5C, CHR ''r'']
      else if (of_char c :: nat) < 0x20 \<or> c = CHR 0x7F
        then [CHR 0x5C, CHR ''x'', hex_digit (of_char c div 16), hex_digit (of_char c)]
      else [c])"

definition repr :: "String.literal \<Rightarrow> string" where
  "repr k =
     (let s = String.explode k;
          quote = (if CHR 0x27 \<in> set s \<and> CHR 0x22 \<notin> set s then CHR 0x22 else CHR 0x27)
      in [quote] @ concat (map (repr_char quote) s) @ [quote])"

text \<open>A subscript \<open>d[k]\<close> with a key \<open>k\<close> written in the script. The text of the \<open>KeyError\<close> for a
  missing key is the \<open>repr\<close> of the key.\<close>

definition subscript :: "(string \<rightharpoonup> 'v) \<Rightarrow> String.literal \<Rightarrow> exn + 'v" where
  "subscript d k =
     (case d (String.explode k) of None \<Rightarrow> Inl (KeyError (repr k)) | Some v \<Rightarrow> Inr v)"

subsection \<open>Requests of the client\<close>

record key_schema_element =
  ks_AttributeName :: string
  KeyType :: string

record attribute_definition =
  ad_AttributeName :: string
  AttributeType :: string

record create_table_input =
  ct_TableName :: string
  KeySchema :: "key_schema_element list"
  AttributeDefinitions :: "attribute_definition list"
  BillingMode :: string

record time_to_live_specification =
  Enabled :: bool
  ttl_AttributeName :: string

record update_time_to_live_input =
  ttl_TableName :: string
  TimeToLiveSpecification :: time_to_live_specification

text \<open>
  The operations of the client that the script names: two it calls (lines 31 and 48), two it
  only prints in a hint for the operator (lines 59 and 65).
\<close>

datatype request =
    CreateTable create_table_input
  | UpdateTimeToLive update_time_to_live_input
  | DeleteTable string
  | ListTables

type_synonym 's endpoint = "request \<Rightarrow> 's \<Rightarrow> (exn + py_dict) \<times> 's"

record client_config =
  service_name :: string
  endpoint_url :: string
  region_name :: string
  aws_access_key_id :: string
  aws_secret_access_key :: string

subsection \<open>The host and the observable run\<close>

record host =
  executable :: string
  import_boto3 :: "exn option"
  check_call :: "exn option"
  import_boto3_again :: "exn option"
  boto3_client :: "exn option"

datatype event =
    Import
  | Subprocess "string list"
  | NewClient client_config
  | Request request

record 's world =
  stdout :: "string list"
  trace :: "event list"
  db :: 's

text \<open>How the process ends: by reaching the end of the module, by \<open>sys.exit(n)\<close>, or by an
  exception that no clause catches.\<close>

datatype outcome = Finished | SysExit nat | Unhandled exn

text \<open>The exit status: the interpreter prints the traceback of an unhandled exception and
  exits with status 1.\<close>

fun exit_status :: "outcome \<Rightarrow> nat" where
  "exit_status Finished = 0"
| "exit_status (SysExit n) = n"
| "exit_status (Unhandled e) = 1"

definition print :: "string \<Rightarrow> 's world \<Rightarrow> 's world" where
  "print line w = w\<lparr>stdout := stdout w @ [line]\<rparr>"

definition record_event :: "event \<Rightarrow> 's world \<Rightarrow> 's world" where
  "record_event ev w = w\<lparr>trace := trace w @ [ev]\<rparr>"

text \<open>A method call on the client: the request goes to the endpoint, which answers and
  changes its state.\<close>

definition call :: "'s endpoint \<Rightarrow> request \<Rightarrow> 's world \<Rightarrow> (exn + py_dict) \<times> 's world" where
  "call ep q w =
     (case ep q (db w) of
        (r, d) \<Rightarrow> (r, w\<lparr>trace := trace w @ [Request q], db := d\<rparr>))"

subsection \<open>The text the script prints\<close>

text \<open>Each line is the argument of one \<open>print\<close>; the symbols outside ASCII are written as the
  bytes of the source file (UTF-8).\<close>

definition cross_mark :: string where
  "cross_mark = [CHR 0xE2, CHR 0x9D, CHR 0x8C]"

definition arrows :: string where
  "arrows = [CHR 0xF0, CHR 0x9F, CHR 0x94, CHR 0x84]"

definition check_mark :: string where
  "check_mark = [CHR 0xE2, CHR 0x9C, CHR 0x85]"

definition sparkles :: string where
  "sparkles = [CHR 0xE2, CHR 0x9C, CHR 0xA8]"

definition warning_sign :: string where
  "warning_sign = [CHR 0xE2, CHR 0x9A, CHR 0xA0, CHR 0xEF, CHR 0xB8, CHR 0x8F]"

definition client_expr :: string where
  "client_expr = ''boto3.client('' @ [CHR 0x27] @ ''dynamodb'' @ [CHR 0x27]
     @ '', endpoint_url='' @ [CHR 0x27] @ ''http://localhost:8000'' @ [CHR 0x27]
     @ '', region_name='' @ [CHR 0x27] @ ''us-east-1'' @ [CHR 0x27]
     @ '', aws_access_key_id='' @ [CHR 0x27] @ ''dummy'' @ [CHR 0x27]
     @ '', aws_secret_access_key='' @ [CHR 0x27] @ ''dummy'' @ [CHR 0x27] @ '')''"

definition msg_not_installed :: string where
  "msg_not_installed = cross_mark @ '' boto3 not installed. Installing...''"

definition msg_creating :: string where
  "msg_creating = arrows @ '' Creating DynamoDB table: rag-document-locks''"

definition msg_created :: string where
  "msg_created = check_mark @ '' Table created successfully!''"

definition msg_enabling :: string where
  "msg_enabling = [CHR 0x0A] @ arrows @ '' Enabling TTL on '' @ [CHR 0x27] @ ''expires_at''
     @ [CHR 0x27] @ '' attribute...''"

definition msg_ttl_enabled :: string where
  "msg_ttl_enabled = check_mark @ '' TTL enabled successfully!''"

definition msg_ready :: string where
  "msg_ready = [CHR 0x0A] @ sparkles @ '' DynamoDB Local is ready!''"

definition msg_to_verify :: string where
  "msg_to_verify = [CHR 0x0A] @ ''To verify:''"

definition msg_verify_hint :: string where
  "msg_verify_hint = ''  python -c '' @ [CHR 0x22] @ ''import boto3; print('' @ client_expr
     @ ''.list_tables())'' @ [CHR 0x22]"

definition msg_exists :: string where
  "msg_exists = warning_sign @ ''  Table already exists!''"

definition msg_to_delete :: string where
  "msg_to_delete = ''To delete and recreate:''"

definition msg_delete_hint :: string where
  "msg_delete_hint = ''  python -c '' @ [CHR 0x22] @ ''import boto3; '' @ client_expr
     @ ''.delete_table(TableName='' @ [CHR 0x27] @ ''rag-document-locks'' @ [CHR 0x27] @ '')''
     @ [CHR 0x22]"

subsection \<open>The script\<close>

text \<open>Lines 8-16. The result is the exception that leaves the block, if any.\<close>

definition import_block :: "host \<Rightarrow> 's world \<Rightarrow> exn option \<times> 's world" where
  "import_block h w =
     (let w1 = record_event Import w in
      case import_boto3 h of
        None \<Rightarrow> (None, w1)
      | Some (ImportError m) \<Rightarrow>
          (let w2 = print msg_not_installed w1;
               w3 = record_event
                      (Subprocess [executable h, ''-m'', ''pip'', ''install'', ''boto3'']) w2 in
           case check_call h of
             Some e \<Rightarrow> (Some e, w3)
           | None \<Rightarrow>
               (let w4 = record_event Import w3 in
                case import_boto3_again h of
                  Some e \<Rightarrow> (Some e, w4)
                | None \<Rightarrow> (None, w4)))
      | Some e \<Rightarrow> (Some e, w1))"

text \<open>Lines 19-25: the arguments of \<open>boto3.client\<close>.\<close>

definition dynamodb_config :: client_config where
  "dynamodb_config =
     \<lparr>service_name = ''dynamodb'', endpoint_url = ''http://localhost:8000'',
      region_name = ''us-east-1'', aws_access_key_id = ''dummy'',
      aws_secret_access_key = ''dummy''\<rparr>"

text \<open>Lines 31-40 and 48-54: the arguments of the two calls.\<close>

definition create_table_args :: create_table_input where
  "create_table_args =
     \<lparr>ct_TableName = ''rag-document-locks'',
      KeySchema = [\<lparr>ks_AttributeName = ''doc_id'', KeyType = ''HASH''\<rparr>],
      AttributeDefinitions = [\<lparr>ad_AttributeName = ''doc_id'', AttributeType = ''S''\<rparr>],
      BillingMode = ''PAY_PER_REQUEST''\<rparr>"

definition update_time_to_live_args :: update_time_to_live_input where
  "update_time_to_live_args =
     \<lparr>ttl_TableName = ''rag-document-locks'',
      TimeToLiveSpecification = \<lparr>Enabled = True, ttl_AttributeName = ''expires_at''\<rparr>\<rparr>"

text \<open>Lines 43 and 44: \<open>response['TableDescription'][k]\<close>.\<close>

definition table_description_field :: "py_dict \<Rightarrow> String.literal \<Rightarrow> exn + string" where
  "table_description_field response k =
     (case subscript response (STR ''TableDescription'') of
        Inl e \<Rightarrow> Inl e
      | Inr td \<Rightarrow> subscript td k)"

text \<open>Lines 29-59, the body of \<open>try\<close>. The result is the exception that leaves it, if any.\<close>

definition try_block :: "'s endpoint \<Rightarrow> 's world \<Rightarrow> exn option \<times> 's world" where
  "try_block ep w =
     (case call ep (CreateTable create_table_args) w of
        (Inl e, w1) \<Rightarrow> (Some e, w1)
      | (Inr response, w1) \<Rightarrow>
          (let w2 = print msg_created w1 in
           case table_description_field response (STR ''TableArn'') of
             Inl e \<Rightarrow> (Some e, w2)
           | Inr arn \<Rightarrow>
               (let w3 = print (''   Table ARN: '' @ arn) w2 in
                case table_description_field response (STR ''TableStatus'') of
                  Inl e \<Rightarrow> (Some e, w3)
                | Inr status \<Rightarrow>
                    (let w4 = print (''   Status: '' @ status) w3;
                         w5 = print msg_enabling w4 in
                     case call ep (UpdateTimeToLive update_time_to_live_args) w5 of
                       (Inl e, w6) \<Rightarrow> (Some e, w6)
                     | (Inr r, w6) \<Rightarrow>
                         (None,
                          print msg_verify_hint
                            (print msg_to_verify
                               (print msg_ready
                                  (print msg_ttl_enabled w6))))))))"

text \<open>Lines 61-71, the two \<open>except\<close> clauses, for an exception \<open>e\<close> that left the \<open>try\<close> body.
  A \<open>KeyError\<close> raised by line 62 is raised inside a handler, so no clause catches it.\<close>

definition except_block :: "exn \<Rightarrow> 's world \<Rightarrow> outcome \<times> 's world" where
  "except_block e w =
     (case e of
        ClientError response m \<Rightarrow>
          (case subscript response (STR ''Error'') of
             Inl k \<Rightarrow> (Unhandled k, w)
           | Inr err \<Rightarrow>
               (case subscript err (STR ''Code'') of
                  Inl k \<Rightarrow> (Unhandled k, w)
                | Inr code \<Rightarrow>
                    if code = ''ResourceInUseException''
                    then (Finished,
                          print msg_delete_hint (print msg_to_delete (print msg_exists w)))
                    else (SysExit 1, print (cross_mark @ '' Error: '' @ str e) w)))
      | _ \<Rightarrow> (SysExit 1, print (cross_mark @ '' Unexpected error: '' @ str e) w))"

text \<open>The process starts with nothing printed and nothing done.\<close>

definition initial :: "'s \<Rightarrow> 's world" where
  "initial d = \<lparr>stdout = [], trace = [], db = d\<rparr>"

text \<open>The whole module, run against the endpoint \<open>ep\<close> in state \<open>d\<close> on the host \<open>h\<close>.\<close>

definition script :: "'s endpoint \<Rightarrow> host \<Rightarrow> 's \<Rightarrow> outcome \<times> 's world" where
  "script ep h d =
     (case import_block h (initial d) of
        (Some e, w1) \<Rightarrow> (Unhandled e, w1)
      | (None, w1) \<Rightarrow>
          (let w2 = record_event (NewClient dynamodb_config) w1 in
           case boto3_client h of
             Some e \<Rightarrow> (Unhandled e, w2)
           | None \<Rightarrow>
               (let w3 = print msg_creating w2 in
                case try_block ep w3 of
                  (None, w4) \<Rightarrow> (Finished, w4)
                | (Some e, w4) \<Rightarrow> except_block e w4)))"

subsection \<open>Observations on a run\<close>

text \<open>The requests sent to the endpoint, in order.\<close>

fun requests :: "event list \<Rightarrow> request list" where
  "requests [] = []"
| "requests (Request q # evs) = q # requests evs"
| "requests (ev # evs) = requests evs"

text \<open>The events of the dependency check: an import of the SDK, a subprocess.\<close>

fun is_dependency_event :: "event \<Rightarrow> bool" where
  "is_dependency_event Import = True"
| "is_dependency_event (Subprocess args) = True"
| "is_dependency_event ev = False"

fun is_subprocess :: "event \<Rightarrow> bool" where
  "is_subprocess (Subprocess args) = True"
| "is_subprocess ev = False"

text \<open>The state of the endpoint after it has served a list of requests.\<close>

definition serve_all :: "'s endpoint \<Rightarrow> request list \<Rightarrow> 's \<Rightarrow> 's" where
  "serve_all ep qs d = foldl (\<lambda>s q. snd (ep q s)) d qs"

subsection \<open>Two endpoints and two hosts to run the script on\<close>

text \<open>
  The endpoint is not part of the script. These two stand in for it where a theorem is applied
  to a concrete run. \<open>canned\<close> answers the requests with a prepared list of answers, one after
  the other, and refuses the connection when the list is used up. \<open>table_store\<close> keeps the
  names of its tables with the TTL attribute of each: it refuses to create a table that
  exists, and to change one that does not.
\<close>

fun canned :: "(exn + py_dict) list endpoint" where
  "canned q [] = (Inl (OtherException ''Could not connect to the endpoint URL''), [])"
| "canned q (a # as) = (a, as)"

definition error_response :: "string \<Rightarrow> py_dict" where
  "error_response code = [''Error'' \<mapsto> [''Code'' \<mapsto> code]]"

definition table_response :: "string \<Rightarrow> py_dict" where
  "table_response name =
     [''TableDescription'' \<mapsto>
        [''TableName'' \<mapsto> name,
         ''TableArn'' \<mapsto> ''arn:aws:dynamodb:ddblocal:000000000000:table/'' @ name,
         ''TableStatus'' \<mapsto> ''ACTIVE'']]"

fun table_store :: "(string \<times> string option) list endpoint" where
  "table_store (CreateTable a) tables =
     (if map_of tables (ct_TableName a) = None
      then (Inr (table_response (ct_TableName a)), (ct_TableName a, None) # tables)
      else (Inl (ClientError (error_response ''ResourceInUseException'')
                   ''Cannot create preexisting table''), tables))"
| "table_store (UpdateTimeToLive a) tables =
     (if map_of tables (ttl_TableName a) = None
      then (Inl (ClientError (error_response ''ResourceNotFoundException'')
                   ''Cannot do operations on a non-existent table''), tables)
      else (Inr Map.empty,
            map (\<lambda>t. if fst t = ttl_TableName a
                     then (fst t,
                           if Enabled (TimeToLiveSpecification a)
                           then Some (ttl_AttributeName (TimeToLiveSpecification a))
                           else None)
                     else t) tables))"
| "table_store (DeleteTable n) tables =
     (if map_of tables n = None
      then (Inl (ClientError (error_response ''ResourceNotFoundException'')
                   ''Cannot do operations on a non-existent table''), tables)
      else (Inr (table_response n), filter (\<lambda>t. fst t \<noteq> n) tables))"
| "table_store ListTables tables = (Inr Map.empty, tables)"

text \<open>A host with the SDK installed, and one without it where \<open>pip\<close> works.\<close>

definition host_with_sdk :: host where
  "host_with_sdk =
     \<lparr>executable = ''/usr/bin/python3'', import_boto3 = None, check_call = None,
      import_boto3_again = None, boto3_client = None\<rparr>"

definition host_without_sdk :: host where
  "host_without_sdk =
     \<lparr>executable = ''/usr/bin/python3'',
      import_boto3 = Some (ImportError ''No module named boto3''), check_call = None,
      import_boto3_again = None, boto3_client = None\<rparr>"

section \<open>Properties of a run\<close>

subsection \<open>What each block leaves behind\<close>

text \<open>The characters of a key written in the script.\<close>

lemmas explode_literal = String.Literal.rep_eq zero_literal.rep_eq

lemma import_block_db: "db (snd (import_block h w)) = db w"
  by (simp add: import_block_def print_def record_event_def Let_def
      split: option.splits exn.splits)

lemma import_block_stdout:
  "stdout (snd (import_block h w)) = stdout w \<or>
   stdout (snd (import_block h w)) = stdout w @ [msg_not_installed]"
  by (simp add: import_block_def print_def record_event_def Let_def
      split: option.splits exn.splits)

lemma import_block_trace:
  "\<exists>deps. trace (snd (import_block h w)) = trace w @ deps \<and> deps \<noteq> []
      \<and> list_all is_dependency_event deps \<and> requests deps = []"
  by (simp add: import_block_def print_def record_event_def Let_def
      split: option.splits exn.splits)

lemma requests_append: "requests (xs @ ys) = requests xs @ requests ys"
  by (induction xs rule: requests.induct) simp_all

lemma try_block_trace:
  "trace (snd (try_block ep w)) = trace w @ [Request (CreateTable create_table_args)] \<or>
   trace (snd (try_block ep w)) =
     trace w @ [Request (CreateTable create_table_args),
                Request (UpdateTimeToLive update_time_to_live_args)] \<and>
   (\<exists>response. fst (ep (CreateTable create_table_args) (db w)) = Inr response)"
  by (auto simp: try_block_def call_def print_def Let_def split: prod.splits sum.splits)

lemma try_block_db:
  "db (snd (try_block ep w)) =
     serve_all ep (requests (drop (length (trace w)) (trace (snd (try_block ep w))))) (db w)"
  by (auto simp: try_block_def call_def print_def Let_def serve_all_def
      split: prod.splits sum.splits)

lemma except_block_frame:
  "trace (snd (except_block e w)) = trace w \<and> db (snd (except_block e w)) = db w"
  by (simp add: except_block_def print_def split: exn.splits sum.splits)

text \<open>The events of every run: those of the dependency check, then at most the construction
  of the client, the request to create the table and the request to enable TTL.\<close>

lemma script_trace:
  "\<exists>deps rest.
      trace (snd (script ep h d)) = deps @ rest \<and> deps \<noteq> [] \<and>
      list_all is_dependency_event deps \<and> requests deps = [] \<and>
      (rest = [] \<or> rest = [NewClient dynamodb_config] \<or>
       rest = [NewClient dynamodb_config, Request (CreateTable create_table_args)] \<or>
       rest = [NewClient dynamodb_config, Request (CreateTable create_table_args),
               Request (UpdateTimeToLive update_time_to_live_args)] \<and>
       (\<exists>response. fst (ep (CreateTable create_table_args) d) = Inr response))"
proof -
  obtain r w where rw: "import_block h (initial d) = (r, w)"
    by (cases "import_block h (initial d)")
  obtain deps where deps: "trace w = deps" "deps \<noteq> []" "list_all is_dependency_event deps"
      "requests deps = []"
    using import_block_trace [of h "initial d"] rw by (auto simp: initial_def)
  have dbw: "db w = d"
    using import_block_db [of h "initial d"] rw by (simp add: initial_def)
  show ?thesis
  proof (cases r)
    case (Some e)
    then have "trace (snd (script ep h d)) = deps @ []"
      using rw deps by (simp add: script_def)
    with deps show ?thesis by blast
  next
    case None
    note r = this
    show ?thesis
    proof (cases "boto3_client h")
      case (Some e)
      then have "trace (snd (script ep h d)) = deps @ [NewClient dynamodb_config]"
        using rw r deps by (simp add: script_def record_event_def)
      with deps show ?thesis by blast
    next
      case None
      let ?w3 = "print msg_creating (record_event (NewClient dynamodb_config) w)"
      have tr: "trace (snd (script ep h d)) = trace (snd (try_block ep ?w3))"
        using rw r None except_block_frame
        by (cases "try_block ep ?w3") (auto simp: script_def split: option.splits)
      have w3: "trace ?w3 = deps @ [NewClient dynamodb_config]" "db ?w3 = d"
        using deps dbw by (simp_all add: print_def record_event_def)
      from try_block_trace [of ep ?w3]
      consider
        "trace (snd (script ep h d)) =
           deps @ [NewClient dynamodb_config, Request (CreateTable create_table_args)]"
      | "trace (snd (script ep h d)) =
           deps @ [NewClient dynamodb_config, Request (CreateTable create_table_args),
                   Request (UpdateTimeToLive update_time_to_live_args)]"
          "\<exists>response. fst (ep (CreateTable create_table_args) d) = Inr response"
        unfolding tr [symmetric] w3 by auto
      then show ?thesis
      proof cases
        case 1
        with deps show ?thesis by blast
      next
        case 2
        with deps show ?thesis by blast
      qed
    qed
  qed
qed

text \<open>The state of the endpoint changes through the requests of the run and through nothing
  else.\<close>

lemma script_db:
  "db (snd (script ep h d)) = serve_all ep (requests (trace (snd (script ep h d)))) d"
proof -
  obtain r w where rw: "import_block h (initial d) = (r, w)"
    by (cases "import_block h (initial d)")
  obtain deps where deps: "trace w = deps" "requests deps = []"
    using import_block_trace [of h "initial d"] rw by (auto simp: initial_def)
  have dbw: "db w = d"
    using import_block_db [of h "initial d"] rw by (simp add: initial_def)
  show ?thesis
  proof (cases r)
    case (Some e)
    then show ?thesis
      using rw deps dbw by (simp add: script_def serve_all_def)
  next
    case None
    note r = this
    show ?thesis
    proof (cases "boto3_client h")
      case (Some e)
      then show ?thesis
        using rw r deps dbw
        by (simp add: script_def record_event_def serve_all_def requests_append)
    next
      case None
      let ?w3 = "print msg_creating (record_event (NewClient dynamodb_config) w)"
      have tr: "trace (snd (script ep h d)) = trace (snd (try_block ep ?w3))"
        "db (snd (script ep h d)) = db (snd (try_block ep ?w3))"
        using rw r None except_block_frame
        by (cases "try_block ep ?w3"; auto simp: script_def split: option.splits)+
      have w3: "trace ?w3 = deps @ [NewClient dynamodb_config]" "db ?w3 = d"
        using deps dbw by (simp_all add: print_def record_event_def)
      from try_block_trace [of ep ?w3] try_block_db [of ep ?w3] show ?thesis
        unfolding tr w3 using deps by (auto simp: requests_append)
    qed
  qed
qed

subsection \<open>The success path\<close>

text \<open>
  C1. On a run that reaches the \<open>try\<close> block (the SDK imports, at once or after its
  installation, and the client is constructed), where the endpoint answers the request to
  create the table with a response that holds the table's ARN and status and then answers the
  request to enable TTL, the script sends exactly two requests: one to create the table
  \<open>rag-document-locks\<close> with the single \<open>HASH\<close> key \<open>doc_id\<close> of type \<open>S\<close> and billing mode
  \<open>PAY_PER_REQUEST\<close>, then one to enable TTL on the attribute \<open>expires_at\<close> of the same table.
  It prints the lines of the success path and reaches the end of the module: exit status 0.
\<close>

theorem create_then_enable_ttl:
  assumes "fst (import_block h (initial d)) = None"
    and "boto3_client h = None"
    and "ep (CreateTable create_table_args) d = (Inr response, d1)"
    and "response ''TableDescription'' = Some td"
    and "td ''TableArn'' = Some arn"
    and "td ''TableStatus'' = Some status"
    and "ep (UpdateTimeToLive update_time_to_live_args) d1 = (Inr r, d2)"
  shows "script ep h d =
           (Finished,
            \<lparr>stdout = stdout (snd (import_block h (initial d))) @
               [msg_creating, msg_created, ''   Table ARN: '' @ arn, ''   Status: '' @ status,
                msg_enabling, msg_ttl_enabled, msg_ready, msg_to_verify, msg_verify_hint],
             trace = trace (snd (import_block h (initial d))) @
               [NewClient dynamodb_config,
                Request (CreateTable
                  \<lparr>ct_TableName = ''rag-document-locks'',
                   KeySchema = [\<lparr>ks_AttributeName = ''doc_id'', KeyType = ''HASH''\<rparr>],
                   AttributeDefinitions =
                     [\<lparr>ad_AttributeName = ''doc_id'', AttributeType = ''S''\<rparr>],
                   BillingMode = ''PAY_PER_REQUEST''\<rparr>),
                Request (UpdateTimeToLive
                  \<lparr>ttl_TableName = ''rag-document-locks'',
                   TimeToLiveSpecification =
                     \<lparr>Enabled = True, ttl_AttributeName = ''expires_at''\<rparr>\<rparr>)],
             db = d2\<rparr>)
         \<and> exit_status (fst (script ep h d)) = 0"
proof -
  obtain w where w: "import_block h (initial d) = (None, w)"
    using assms(1) by (cases "import_block h (initial d)") simp
  have "db w = d"
    using import_block_db [of h "initial d"] w by (simp add: initial_def)
  then show ?thesis
    using assms(2-) w
    by (simp add: script_def try_block_def call_def print_def record_event_def subscript_def explode_literal
        table_description_field_def create_table_args_def update_time_to_live_args_def)
qed

text \<open>The run on a host with the SDK against an empty table store.\<close>

theorem create_then_enable_ttl_witness:
  "script table_store host_with_sdk [] =
     (Finished,
      \<lparr>stdout =
         [msg_creating, msg_created,
          ''   Table ARN: arn:aws:dynamodb:ddblocal:000000000000:table/rag-document-locks'',
          ''   Status: ACTIVE'', msg_enabling, msg_ttl_enabled, msg_ready, msg_to_verify,
          msg_verify_hint],
       trace =
         [Import, NewClient dynamodb_config,
          Request (CreateTable
            \<lparr>ct_TableName = ''rag-document-locks'',
             KeySchema = [\<lparr>ks_AttributeName = ''doc_id'', KeyType = ''HASH''\<rparr>],
             AttributeDefinitions =
               [\<lparr>ad_AttributeName = ''doc_id'', AttributeType = ''S''\<rparr>],
             BillingMode = ''PAY_PER_REQUEST''\<rparr>),
          Request (UpdateTimeToLive
            \<lparr>ttl_TableName = ''rag-document-locks'',
             TimeToLiveSpecification =
               \<lparr>Enabled = True, ttl_AttributeName = ''expires_at''\<rparr>\<rparr>)],
       db = [(''rag-document-locks'', Some ''expires_at'')]\<rparr>)
   \<and> exit_status (fst (script table_store host_with_sdk [])) = 0"
proof -
  have ib: "import_block host_with_sdk (initial []) =
      (None, \<lparr>stdout = [], trace = [Import], db = []\<rparr>)"
    by (simp add: import_block_def host_with_sdk_def initial_def record_event_def)
  have 1: "fst (import_block host_with_sdk (initial [])) = None"
    by (simp add: ib)
  have 2: "boto3_client host_with_sdk = None"
    by (simp add: host_with_sdk_def)
  have 3: "table_store (CreateTable create_table_args) [] =
      (Inr (table_response ''rag-document-locks''), [(''rag-document-locks'', None)])"
    by (simp add: create_table_args_def)
  have 4: "table_response ''rag-document-locks'' ''TableDescription'' =
      Some [''TableName'' \<mapsto> ''rag-document-locks'',
            ''TableArn'' \<mapsto>
              ''arn:aws:dynamodb:ddblocal:000000000000:table/rag-document-locks'',
            ''TableStatus'' \<mapsto> ''ACTIVE'']"
    by (simp add: table_response_def)
  have 5: "[''TableName'' \<mapsto> ''rag-document-locks'',
            ''TableArn'' \<mapsto>
              ''arn:aws:dynamodb:ddblocal:000000000000:table/rag-document-locks'',
            ''TableStatus'' \<mapsto> ''ACTIVE''] ''TableArn'' =
      Some ''arn:aws:dynamodb:ddblocal:000000000000:table/rag-document-locks''"
    by simp
  have 6: "[''TableName'' \<mapsto> ''rag-document-locks'',
            ''TableArn'' \<mapsto>
              ''arn:aws:dynamodb:ddblocal:000000000000:table/rag-document-locks'',
            ''TableStatus'' \<mapsto> ''ACTIVE''] ''TableStatus'' = Some ''ACTIVE''"
    by simp
  have 7: "table_store (UpdateTimeToLive update_time_to_live_args)
             [(''rag-document-locks'', None)] =
      (Inr Map.empty, [(''rag-document-locks'', Some ''expires_at'')])"
    by (simp add: update_time_to_live_args_def)
  show ?thesis
    using create_then_enable_ttl [OF 1 2 3 4 5 6 7] by (simp add: ib)
qed


subsection \<open>The table exists already\<close>

text \<open>
  C2. On a run that reaches the \<open>try\<close> block, where the endpoint answers the request to create
  the table with a \<open>ClientError\<close> whose code is \<open>ResourceInUseException\<close>, the script prints
  the warning that the table exists, then the hint for deleting it by hand; the request to
  create the table is the only one it sends (no second attempt, no request to enable TTL),
  and it reaches the end of the module: exit status 0.
\<close>

theorem already_exists_warns_and_ends:
  assumes "fst (import_block h (initial d)) = None"
    and "boto3_client h = None"
    and "ep (CreateTable create_table_args) d = (Inl (ClientError response m), d1)"
    and "response ''Error'' = Some err"
    and "err ''Code'' = Some ''ResourceInUseException''"
  shows "script ep h d =
           (Finished,
            \<lparr>stdout = stdout (snd (import_block h (initial d))) @
               [msg_creating, msg_exists, msg_to_delete, msg_delete_hint],
             trace = trace (snd (import_block h (initial d))) @
               [NewClient dynamodb_config, Request (CreateTable create_table_args)],
             db = d1\<rparr>)
         \<and> exit_status (fst (script ep h d)) = 0"
proof -
  obtain w where w: "import_block h (initial d) = (None, w)"
    using assms(1) by (cases "import_block h (initial d)") simp
  have "db w = d"
    using import_block_db [of h "initial d"] w by (simp add: initial_def)
  then show ?thesis
    using assms(2-) w
    by (simp add: script_def try_block_def except_block_def call_def print_def
        record_event_def subscript_def explode_literal)
qed

text \<open>The run against a table store that holds the table.\<close>

theorem already_exists_warns_and_ends_witness:
  "script table_store host_with_sdk [(''rag-document-locks'', Some ''expires_at'')] =
     (Finished,
      \<lparr>stdout = [msg_creating, msg_exists, msg_to_delete, msg_delete_hint],
       trace = [Import, NewClient dynamodb_config, Request (CreateTable create_table_args)],
       db = [(''rag-document-locks'', Some ''expires_at'')]\<rparr>)
   \<and> exit_status
        (fst (script table_store host_with_sdk [(''rag-document-locks'', Some ''expires_at'')]))
      = 0"
proof -
  have ib: "import_block host_with_sdk (initial [(''rag-document-locks'', Some ''expires_at'')]) =
      (None, \<lparr>stdout = [], trace = [Import],
              db = [(''rag-document-locks'', Some ''expires_at'')]\<rparr>)"
    by (simp add: import_block_def host_with_sdk_def initial_def record_event_def)
  have 1: "fst (import_block host_with_sdk
             (initial [(''rag-document-locks'', Some ''expires_at'')])) = None"
    by (simp add: ib)
  have 2: "boto3_client host_with_sdk = None"
    by (simp add: host_with_sdk_def)
  have 3: "table_store (CreateTable create_table_args)
             [(''rag-document-locks'', Some ''expires_at'')] =
      (Inl (ClientError (error_response ''ResourceInUseException'')
              ''Cannot create preexisting table''),
       [(''rag-document-locks'', Some ''expires_at'')])"
    by (simp add: create_table_args_def)
  have 4: "error_response ''ResourceInUseException'' ''Error'' =
      Some [''Code'' \<mapsto> ''ResourceInUseException'']"
    by (simp add: error_response_def)
  have 5: "[''Code'' \<mapsto> ''ResourceInUseException''] ''Code'' = Some ''ResourceInUseException''"
    by simp
  show ?thesis
    using already_exists_warns_and_ends
      [where ep = table_store and response = "error_response ''ResourceInUseException''"
         and err = "[''Code'' \<mapsto> ''ResourceInUseException'']", OF 1 2 3 4 5]
    by (simp add: ib)
qed

subsection \<open>Errors\<close>

text \<open>
  C3. On a run that reaches the \<open>try\<close> block, where the endpoint answers the request to create
  the table with a \<open>ClientError\<close> whose code is not \<open>ResourceInUseException\<close>, the script
  prints the error (\<open>str(e)\<close> after the prefix of line 67) and exits through \<open>sys.exit(1)\<close>.
\<close>

theorem other_service_error_exits_1:
  assumes "fst (import_block h (initial d)) = None"
    and "boto3_client h = None"
    and "ep (CreateTable create_table_args) d = (Inl (ClientError response m), d1)"
    and "response ''Error'' = Some err"
    and "err ''Code'' = Some code"
    and "code \<noteq> ''ResourceInUseException''"
  shows "script ep h d =
           (SysExit 1,
            \<lparr>stdout = stdout (snd (import_block h (initial d))) @
               [msg_creating, cross_mark @ '' Error: '' @ m],
             trace = trace (snd (import_block h (initial d))) @
               [NewClient dynamodb_config, Request (CreateTable create_table_args)],
             db = d1\<rparr>)
         \<and> exit_status (fst (script ep h d)) = 1"
proof -
  obtain w where w: "import_block h (initial d) = (None, w)"
    using assms(1) by (cases "import_block h (initial d)") simp
  have "db w = d"
    using import_block_db [of h "initial d"] w by (simp add: initial_def)
  then show ?thesis
    using assms(2-) w
    by (simp add: script_def try_block_def except_block_def call_def print_def
        record_event_def subscript_def explode_literal)
qed

text \<open>The run where the endpoint denies access.\<close>

theorem other_service_error_exits_1_witness:
  "script canned host_with_sdk
     [Inl (ClientError (error_response ''AccessDeniedException'') ''Access denied'')] =
     (SysExit 1,
      \<lparr>stdout = [msg_creating, cross_mark @ '' Error: Access denied''],
       trace = [Import, NewClient dynamodb_config, Request (CreateTable create_table_args)],
       db = []\<rparr>)
   \<and> exit_status
        (fst (script canned host_with_sdk
           [Inl (ClientError (error_response ''AccessDeniedException'') ''Access denied'')]))
      = 1"
proof -
  let ?d = "[Inl (ClientError (error_response ''AccessDeniedException'') ''Access denied'')]"
  have ib: "import_block host_with_sdk (initial ?d) =
      (None, \<lparr>stdout = [], trace = [Import], db = ?d\<rparr>)"
    by (simp add: import_block_def host_with_sdk_def initial_def record_event_def)
  have 1: "fst (import_block host_with_sdk (initial ?d)) = None"
    by (simp add: ib)
  have 2: "boto3_client host_with_sdk = None"
    by (simp add: host_with_sdk_def)
  have 3: "canned (CreateTable create_table_args) ?d =
      (Inl (ClientError (error_response ''AccessDeniedException'') ''Access denied''), [])"
    by simp
  have 4: "error_response ''AccessDeniedException'' ''Error'' =
      Some [''Code'' \<mapsto> ''AccessDeniedException'']"
    by (simp add: error_response_def)
  have 5: "[''Code'' \<mapsto> ''AccessDeniedException''] ''Code'' = Some ''AccessDeniedException''"
    by simp
  have 6: "''AccessDeniedException'' \<noteq> ''ResourceInUseException''"
    by simp
  show ?thesis
    using other_service_error_exits_1
      [where ep = canned and response = "error_response ''AccessDeniedException''"
         and err = "[''Code'' \<mapsto> ''AccessDeniedException'']", OF 1 2 3 4 5 6]
    by (simp add: ib)
qed

text \<open>
  Every way in which an exception leaves the \<open>try\<close> body: the call that creates the table
  raises it; or that call returns a response and a subscript of line 43 or 44 raises a
  \<open>KeyError\<close> for the key that is missing; or the response holds the table's ARN and status and
  the call that enables TTL raises it.
\<close>

lemma try_block_raises_iff:
  "fst (try_block ep w) = Some e \<longleftrightarrow>
     fst (ep (CreateTable create_table_args) (db w)) = Inl e \<or>
     (\<exists>response d1.
        ep (CreateTable create_table_args) (db w) = (Inr response, d1) \<and>
        (response ''TableDescription'' = None \<and>
           e = KeyError ([CHR 0x27] @ ''TableDescription'' @ [CHR 0x27]) \<or>
         (\<exists>td. response ''TableDescription'' = Some td \<and>
            (td ''TableArn'' = None \<and>
               e = KeyError ([CHR 0x27] @ ''TableArn'' @ [CHR 0x27]) \<or>
             (\<exists>arn. td ''TableArn'' = Some arn \<and>
                (td ''TableStatus'' = None \<and>
                   e = KeyError ([CHR 0x27] @ ''TableStatus'' @ [CHR 0x27]) \<or>
                 (\<exists>status. td ''TableStatus'' = Some status \<and>
                    fst (ep (UpdateTimeToLive update_time_to_live_args) d1) = Inl e)))))))"
  by (cases "ep (CreateTable create_table_args) (db w)")
     (auto simp: try_block_def call_def print_def subscript_def explode_literal
        table_description_field_def repr_def repr_char_def Let_def
      split: sum.splits option.splits prod.splits)

text \<open>
  C4. On a run that reaches the \<open>try\<close> block, where an exception that is not a \<open>ClientError\<close>
  leaves the \<open>try\<close> body in one of these ways (raised by the call that creates the table, by a
  subscript of line 43 or 44, or by the call that enables TTL), the last line the script
  prints is the text \<open>t\<close> of the exception after the prefix of line 70, and the script exits
  through \<open>sys.exit(1)\<close>. For a response without \<open>TableDescription\<close>, \<open>TableArn\<close> or \<open>TableStatus\<close>
  the text is the name of the missing key in single quotes.
\<close>

theorem unexpected_error_exits_1:
  assumes "fst (import_block h (initial d)) = None"
    and "boto3_client h = None"
    and "e = ImportError t \<or> e = KeyError t \<or> e = OtherException t"
    and "fst (ep (CreateTable create_table_args) d) = Inl e \<or>
         (\<exists>response d1.
            ep (CreateTable create_table_args) d = (Inr response, d1) \<and>
            (response ''TableDescription'' = None \<and>
               e = KeyError ([CHR 0x27] @ ''TableDescription'' @ [CHR 0x27]) \<or>
             (\<exists>td. response ''TableDescription'' = Some td \<and>
                (td ''TableArn'' = None \<and>
                   e = KeyError ([CHR 0x27] @ ''TableArn'' @ [CHR 0x27]) \<or>
                 (\<exists>arn. td ''TableArn'' = Some arn \<and>
                    (td ''TableStatus'' = None \<and>
                       e = KeyError ([CHR 0x27] @ ''TableStatus'' @ [CHR 0x27]) \<or>
                     (\<exists>status. td ''TableStatus'' = Some status \<and>
                        fst (ep (UpdateTimeToLive update_time_to_live_args) d1) = Inl e)))))))"
  shows "fst (script ep h d) = SysExit 1
         \<and> exit_status (fst (script ep h d)) = 1
         \<and> stdout (snd (script ep h d)) \<noteq> []
         \<and> last (stdout (snd (script ep h d))) = cross_mark @ '' Unexpected error: '' @ t"
proof -
  obtain w where w: "import_block h (initial d) = (None, w)"
    using assms(1) by (cases "import_block h (initial d)") simp
  have dbw: "db w = d"
    using import_block_db [of h "initial d"] w by (simp add: initial_def)
  let ?w3 = "print msg_creating (record_event (NewClient dynamodb_config) w)"
  have "db ?w3 = d"
    using dbw by (simp add: print_def record_event_def)
  then have "fst (try_block ep ?w3) = Some e"
    using assms(4) try_block_raises_iff [of ep ?w3 e] by simp
  then obtain w4 where w4: "try_block ep ?w3 = (Some e, w4)"
    by (cases "try_block ep ?w3") simp
  have run: "script ep h d = except_block e w4"
    using w assms(2) w4 by (simp add: script_def)
  from assms(3) show ?thesis
    unfolding run by (auto simp: except_block_def print_def)
qed

text \<open>Three runs: nothing listens at the endpoint; the response to the request that creates
  the table is empty; the response holds the table's ARN and no status.\<close>

theorem unexpected_error_exits_1_witness:
  "fst (script canned host_with_sdk []) = SysExit 1
   \<and> exit_status (fst (script canned host_with_sdk [])) = 1
   \<and> stdout (snd (script canned host_with_sdk [])) =
       [msg_creating,
        cross_mark @ '' Unexpected error: Could not connect to the endpoint URL'']
   \<and> fst (script canned host_with_sdk [Inr Map.empty]) = SysExit 1
   \<and> stdout (snd (script canned host_with_sdk [Inr Map.empty])) =
       [msg_creating, msg_created,
        cross_mark @ '' Unexpected error: '' @ [CHR 0x27] @ ''TableDescription'' @ [CHR 0x27]]
   \<and> fst (script canned host_with_sdk
         [Inr [''TableDescription'' \<mapsto> [''TableArn'' \<mapsto> ''arn:t'']]]) = SysExit 1
   \<and> stdout (snd (script canned host_with_sdk
         [Inr [''TableDescription'' \<mapsto> [''TableArn'' \<mapsto> ''arn:t'']]])) =
       [msg_creating, msg_created, ''   Table ARN: arn:t'',
        cross_mark @ '' Unexpected error: '' @ [CHR 0x27] @ ''TableStatus'' @ [CHR 0x27]]"
proof -
  let ?refused = "OtherException ''Could not connect to the endpoint URL''"
  let ?r3 = "[''TableDescription'' \<mapsto> [''TableArn'' \<mapsto> ''arn:t'']] :: py_dict"
  have ib: "import_block host_with_sdk (initial s) =
      (None, \<lparr>stdout = [], trace = [Import], db = s\<rparr>)"
    for s :: "(exn + py_dict) list"
    by (simp add: import_block_def host_with_sdk_def initial_def record_event_def)
  have 1: "fst (import_block host_with_sdk (initial s)) = None"
    for s :: "(exn + py_dict) list"
    by (simp add: ib)
  have 2: "boto3_client host_with_sdk = None"
    by (simp add: host_with_sdk_def)
  have a3: "?refused = ImportError ''Could not connect to the endpoint URL'' \<or>
      ?refused = KeyError ''Could not connect to the endpoint URL'' \<or>
      ?refused = OtherException ''Could not connect to the endpoint URL''"
    by simp
  have a4: "fst (canned (CreateTable create_table_args) []) = Inl ?refused"
    by simp
  have b3: "KeyError ([CHR 0x27] @ ''TableDescription'' @ [CHR 0x27]) =
        ImportError ([CHR 0x27] @ ''TableDescription'' @ [CHR 0x27]) \<or>
      KeyError ([CHR 0x27] @ ''TableDescription'' @ [CHR 0x27]) =
        KeyError ([CHR 0x27] @ ''TableDescription'' @ [CHR 0x27]) \<or>
      KeyError ([CHR 0x27] @ ''TableDescription'' @ [CHR 0x27]) =
        OtherException ([CHR 0x27] @ ''TableDescription'' @ [CHR 0x27])"
    by simp
  have b4: "canned (CreateTable create_table_args) [Inr Map.empty] = (Inr Map.empty, [])"
    "(Map.empty :: py_dict) ''TableDescription'' = None"
    by simp_all
  have c3: "KeyError ([CHR 0x27] @ ''TableStatus'' @ [CHR 0x27]) =
        ImportError ([CHR 0x27] @ ''TableStatus'' @ [CHR 0x27]) \<or>
      KeyError ([CHR 0x27] @ ''TableStatus'' @ [CHR 0x27]) =
        KeyError ([CHR 0x27] @ ''TableStatus'' @ [CHR 0x27]) \<or>
      KeyError ([CHR 0x27] @ ''TableStatus'' @ [CHR 0x27]) =
        OtherException ([CHR 0x27] @ ''TableStatus'' @ [CHR 0x27])"
    by simp
  have c4: "canned (CreateTable create_table_args) [Inr ?r3] = (Inr ?r3, [])"
    "?r3 ''TableDescription'' = Some [''TableArn'' \<mapsto> ''arn:t'']"
    "[''TableArn'' \<mapsto> ''arn:t''] ''TableArn'' = Some ''arn:t''"
    "[''TableArn'' \<mapsto> ''arn:t''] ''TableStatus'' = None"
    by simp_all
  have out: "stdout (snd (script canned host_with_sdk [])) =
       [msg_creating,
        cross_mark @ '' Unexpected error: Could not connect to the endpoint URL'']"
    "stdout (snd (script canned host_with_sdk [Inr Map.empty])) =
       [msg_creating, msg_created,
        cross_mark @ '' Unexpected error: '' @ [CHR 0x27] @ ''TableDescription'' @ [CHR 0x27]]"
    "stdout (snd (script canned host_with_sdk [Inr ?r3])) =
       [msg_creating, msg_created, ''   Table ARN: arn:t'',
        cross_mark @ '' Unexpected error: '' @ [CHR 0x27] @ ''TableStatus'' @ [CHR 0x27]]"
    by (simp_all add: script_def ib 2 try_block_def except_block_def call_def print_def
        record_event_def subscript_def explode_literal table_description_field_def
        repr_def repr_char_def Let_def)
  have A: "fst (script canned host_with_sdk []) = SysExit 1
      \<and> exit_status (fst (script canned host_with_sdk [])) = 1"
    using unexpected_error_exits_1 [where ep = canned, OF 1 2 a3] a4 by simp
  have B: "fst (script canned host_with_sdk [Inr Map.empty]) = SysExit 1"
    using unexpected_error_exits_1 [where ep = canned and d = "[Inr Map.empty]", OF 1 2 b3]
      b4 by blast
  have C: "fst (script canned host_with_sdk [Inr ?r3]) = SysExit 1"
    using unexpected_error_exits_1 [where ep = canned and d = "[Inr ?r3]", OF 1 2 c3]
      c4 by blast
  from A B C out show ?thesis by simp
qed

text \<open>A response without the table's ARN or status ends the \<open>try\<close> body before the request to
  enable TTL: the request to create the table stays the only one.\<close>

lemma incomplete_response_sends_no_ttl_request:
  assumes "fst (import_block h (initial d)) = None"
    and "boto3_client h = None"
    and "ep (CreateTable create_table_args) d = (Inr response, d1)"
    and "response ''TableDescription'' = None \<or>
         (\<exists>td. response ''TableDescription'' = Some td \<and>
            (td ''TableArn'' = None \<or> td ''TableStatus'' = None))"
  shows "requests (trace (snd (script ep h d))) = [CreateTable create_table_args]
         \<and> db (snd (script ep h d)) = d1"
proof -
  obtain w where w: "import_block h (initial d) = (None, w)"
    using assms(1) by (cases "import_block h (initial d)") simp
  have dbw: "db w = d"
    using import_block_db [of h "initial d"] w by (simp add: initial_def)
  obtain deps where deps: "trace w = deps" "requests deps = []"
    using import_block_trace [of h "initial d"] w by (auto simp: initial_def)
  show ?thesis
    using assms(2-) w dbw deps
    by (auto simp: script_def try_block_def except_block_def call_def print_def
        record_event_def subscript_def explode_literal table_description_field_def
        requests_append split: option.splits)
qed

subsection \<open>Order and extent of the effects\<close>

lemma dependency_event_not_request:
  "list_all is_dependency_event deps \<Longrightarrow> Request q \<notin> set deps"
  by (induction deps) auto


text \<open>
  C8. The events of every run are those of the dependency check (imports of the SDK and the
  \<open>pip\<close> subprocess, at least one), followed by nothing, or by the construction of the client,
  or by that and the request to create the table, or by those two and the request to enable
  TTL. The request to enable TTL is the last event when it occurs, it comes right after the
  request to create the table, and it occurs only when the endpoint answered that request
  with a response. When the call that creates the table raises (the table exists, or any
  other error), no request to enable TTL is sent in the run.
\<close>

theorem steps_in_order:
  "\<exists>deps rest.
      trace (snd (script ep h d)) = deps @ rest \<and> deps \<noteq> [] \<and>
      list_all is_dependency_event deps \<and>
      (rest = [] \<or> rest = [NewClient dynamodb_config] \<or>
       rest = [NewClient dynamodb_config, Request (CreateTable create_table_args)] \<or>
       rest = [NewClient dynamodb_config, Request (CreateTable create_table_args),
               Request (UpdateTimeToLive update_time_to_live_args)] \<and>
       (\<exists>response. fst (ep (CreateTable create_table_args) d) = Inr response)) \<and>
      ((\<exists>e. fst (ep (CreateTable create_table_args) d) = Inl e) \<longrightarrow>
       (\<forall>a. Request (UpdateTimeToLive a) \<notin> set (deps @ rest)))"
proof -
  obtain deps rest where t: "trace (snd (script ep h d)) = deps @ rest" "deps \<noteq> []"
    "list_all is_dependency_event deps"
    "rest = [] \<or> rest = [NewClient dynamodb_config] \<or>
       rest = [NewClient dynamodb_config, Request (CreateTable create_table_args)] \<or>
       rest = [NewClient dynamodb_config, Request (CreateTable create_table_args),
               Request (UpdateTimeToLive update_time_to_live_args)] \<and>
       (\<exists>response. fst (ep (CreateTable create_table_args) d) = Inr response)"
    using script_trace [of ep h d] by blast
  have "\<forall>a. Request (UpdateTimeToLive a) \<notin> set (deps @ rest)"
    if "\<exists>e. fst (ep (CreateTable create_table_args) d) = Inl e"
    using that t(4) dependency_event_not_request [OF t(3)] by auto
  with t show ?thesis by blast
qed

text \<open>The run, on a host that has to install the SDK, against a table store that holds the
  table: the call that creates the table raises and no request to enable TTL is sent.\<close>

theorem steps_in_order_witness:
  "(\<exists>e. fst (table_store (CreateTable create_table_args) [(''rag-document-locks'', None)])
          = Inl e)
   \<and> (\<forall>a. Request (UpdateTimeToLive a) \<notin>
          set (trace (snd (script table_store host_without_sdk
                 [(''rag-document-locks'', None)]))))
   \<and> trace (snd (script table_store host_without_sdk [(''rag-document-locks'', None)])) =
       [Import, Subprocess [''/usr/bin/python3'', ''-m'', ''pip'', ''install'', ''boto3''],
        Import, NewClient dynamodb_config, Request (CreateTable create_table_args)]"
proof -
  let ?d = "[(''rag-document-locks'', None :: string option)]"
  have hyp: "\<exists>e. fst (table_store (CreateTable create_table_args) ?d) = Inl e"
    by (simp add: create_table_args_def)
  from steps_in_order [of table_store host_without_sdk ?d]
  obtain deps rest where
    "trace (snd (script table_store host_without_sdk ?d)) = deps @ rest"
    "(\<exists>e. fst (table_store (CreateTable create_table_args) ?d) = Inl e) \<longrightarrow>
       (\<forall>a. Request (UpdateTimeToLive a) \<notin> set (deps @ rest))"
    by blast
  with hyp have no_ttl: "\<forall>a. Request (UpdateTimeToLive a) \<notin>
      set (trace (snd (script table_store host_without_sdk ?d)))"
    by simp
  have "trace (snd (script table_store host_without_sdk ?d)) =
       [Import, Subprocess [''/usr/bin/python3'', ''-m'', ''pip'', ''install'', ''boto3''],
        Import, NewClient dynamodb_config, Request (CreateTable create_table_args)]"
    by (simp add: script_def import_block_def try_block_def except_block_def call_def
        print_def record_event_def initial_def subscript_def explode_literal host_without_sdk_def
        error_response_def create_table_args_def)
  with hyp no_ttl show ?thesis by blast
qed

text \<open>
  C9. The requests of every run are none, or the one to create the table, or that one
  followed by the one to enable TTL. No request to delete a table is among them, and the
  state of the endpoint at the end of the run is the one these requests lead to: the script
  changes it through nothing else. The command that deletes the table is text in a printed
  hint.
\<close>

theorem only_create_and_ttl_requests:
  "requests (trace (snd (script ep h d))) \<in>
     {[], [CreateTable create_table_args],
      [CreateTable create_table_args, UpdateTimeToLive update_time_to_live_args]}
   \<and> (\<forall>n. DeleteTable n \<notin> set (requests (trace (snd (script ep h d)))))
   \<and> db (snd (script ep h d)) = serve_all ep (requests (trace (snd (script ep h d)))) d"
proof -
  obtain deps rest where t: "trace (snd (script ep h d)) = deps @ rest"
    "requests deps = []"
    "rest = [] \<or> rest = [NewClient dynamodb_config] \<or>
       rest = [NewClient dynamodb_config, Request (CreateTable create_table_args)] \<or>
       rest = [NewClient dynamodb_config, Request (CreateTable create_table_args),
               Request (UpdateTimeToLive update_time_to_live_args)] \<and>
       (\<exists>response. fst (ep (CreateTable create_table_args) d) = Inr response)"
    using script_trace [of ep h d] by blast
  have "requests (trace (snd (script ep h d))) \<in>
     {[], [CreateTable create_table_args],
      [CreateTable create_table_args, UpdateTimeToLive update_time_to_live_args]}"
    using t by (auto simp: requests_append)
  moreover from this have "\<forall>n. DeleteTable n \<notin> set (requests (trace (snd (script ep h d))))"
    by auto
  ultimately show ?thesis
    using script_db [of ep h d] by simp
qed

text \<open>The run against a table store that holds the table and another one: the hint is
  printed, the only request is the one to create the table, and the store is as before.\<close>

theorem only_create_and_ttl_requests_witness:
  "requests (trace (snd (script table_store host_with_sdk
      [(''rag-document-locks'', None), (''other'', Some ''ttl'')]))) =
     [CreateTable create_table_args]
   \<and> (\<forall>n. DeleteTable n \<notin> set (requests (trace (snd (script table_store host_with_sdk
      [(''rag-document-locks'', None), (''other'', Some ''ttl'')])))))
   \<and> db (snd (script table_store host_with_sdk
      [(''rag-document-locks'', None), (''other'', Some ''ttl'')])) =
     [(''rag-document-locks'', None), (''other'', Some ''ttl'')]
   \<and> msg_delete_hint \<in> set (stdout (snd (script table_store host_with_sdk
      [(''rag-document-locks'', None), (''other'', Some ''ttl'')])))"
proof -
  let ?d = "[(''rag-document-locks'', None), (''other'', Some ''ttl'')]"
  have run: "script table_store host_with_sdk ?d =
     (Finished,
      \<lparr>stdout = [msg_creating, msg_exists, msg_to_delete, msg_delete_hint],
       trace = [Import, NewClient dynamodb_config, Request (CreateTable create_table_args)],
       db = ?d\<rparr>)"
    by (simp add: script_def import_block_def try_block_def except_block_def call_def
        print_def record_event_def initial_def subscript_def explode_literal host_with_sdk_def
        error_response_def create_table_args_def)
  show ?thesis
    using only_create_and_ttl_requests [of table_store host_with_sdk ?d]
    by (simp add: run)
qed


subsection \<open>Outside the \<open>try\<close> block\<close>

text \<open>
  C6. On a run where the first import of the SDK raises \<open>ImportError\<close>, the script starts
  exactly one subprocess, \<open>[sys.executable, "-m", "pip", "install", "boto3"]\<close>. When that
  call returns, the run starts with the import, the installation and one more import, and
  these are all the imports and subprocesses of the run. When that call raises, the exception
  is handled by no clause: the process ends on it with a non-zero status, after the one line
  that announces the installation, with no second import and no request.
\<close>

theorem missing_sdk_one_install:
  assumes "import_boto3 h = Some (ImportError m)"
  shows "filter is_subprocess (trace (snd (script ep h d))) =
           [Subprocess [executable h, ''-m'', ''pip'', ''install'', ''boto3'']]
    \<and> (check_call h = None \<longrightarrow>
         take 3 (trace (snd (script ep h d))) =
           [Import, Subprocess [executable h, ''-m'', ''pip'', ''install'', ''boto3''], Import]
         \<and> filter is_dependency_event (trace (snd (script ep h d))) =
           [Import, Subprocess [executable h, ''-m'', ''pip'', ''install'', ''boto3''], Import])
    \<and> (\<forall>e. check_call h = Some e \<longrightarrow>
         script ep h d =
           (Unhandled e,
            \<lparr>stdout = [msg_not_installed],
             trace = [Import, Subprocess [executable h, ''-m'', ''pip'', ''install'', ''boto3'']],
             db = d\<rparr>)
         \<and> exit_status (fst (script ep h d)) \<noteq> 0)"
proof (cases "check_call h")
  case (Some e)
  then show ?thesis
    using assms
    by (simp add: script_def import_block_def print_def record_event_def initial_def)
next
  case None
  let ?pip = "Subprocess [executable h, ''-m'', ''pip'', ''install'', ''boto3'']"
  obtain r w where rw: "import_block h (initial d) = (r, w)"
    by (cases "import_block h (initial d)")
  then have w: "trace w = [Import, ?pip, Import]"
    using assms None
    by (auto simp: import_block_def print_def record_event_def initial_def Let_def
        split: option.splits)
  have "\<exists>rest. trace (snd (script ep h d)) = [Import, ?pip, Import] @ rest \<and>
      filter is_dependency_event rest = []"
  proof (cases r)
    case (Some e)
    then show ?thesis using rw w by (simp add: script_def)
  next
    case None
    note r = this
    show ?thesis
    proof (cases "boto3_client h")
      case (Some e)
      then show ?thesis using rw r w by (simp add: script_def record_event_def)
    next
      case None
      let ?w3 = "print msg_creating (record_event (NewClient dynamodb_config) w)"
      have tr: "trace (snd (script ep h d)) = trace (snd (try_block ep ?w3))"
        using rw r None except_block_frame
        by (cases "try_block ep ?w3") (auto simp: script_def split: option.splits)
      have w3: "trace ?w3 = [Import, ?pip, Import] @ [NewClient dynamodb_config]"
        using w by (simp add: print_def record_event_def)
      from try_block_trace [of ep ?w3] show ?thesis
        unfolding tr w3 by auto
    qed
  qed
  then obtain rest where rest: "trace (snd (script ep h d)) = [Import, ?pip, Import] @ rest"
    "filter is_dependency_event rest = []"
    by blast
  have "filter is_subprocess rest = []"
  proof -
    have nd: "\<not> is_dependency_event ev" if "ev \<in> set rest" for ev
      using that rest(2) by (simp add: filter_empty_conv)
    have "\<not> is_subprocess ev" if "ev \<in> set rest" for ev
      using nd [OF that] by (cases ev) auto
    then show ?thesis by (simp add: filter_empty_conv)
  qed
  with rest None show ?thesis by simp
qed

text \<open>Two runs on a host without the SDK: one where \<open>pip\<close> works, one where it fails.\<close>

theorem missing_sdk_one_install_witness:
  "trace (snd (script table_store host_without_sdk [])) =
     [Import, Subprocess [''/usr/bin/python3'', ''-m'', ''pip'', ''install'', ''boto3''],
      Import, NewClient dynamodb_config, Request (CreateTable create_table_args),
      Request (UpdateTimeToLive update_time_to_live_args)]
   \<and> filter is_subprocess (trace (snd (script table_store host_without_sdk []))) =
     [Subprocess [''/usr/bin/python3'', ''-m'', ''pip'', ''install'', ''boto3'']]
   \<and> filter is_dependency_event (trace (snd (script table_store host_without_sdk []))) =
     [Import, Subprocess [''/usr/bin/python3'', ''-m'', ''pip'', ''install'', ''boto3''],
      Import]
   \<and> script table_store
        (host_without_sdk\<lparr>check_call := Some (OtherException ''pip failed'')\<rparr>) [] =
       (Unhandled (OtherException ''pip failed''),
        \<lparr>stdout = [msg_not_installed],
         trace =
           [Import, Subprocess [''/usr/bin/python3'', ''-m'', ''pip'', ''install'', ''boto3'']],
         db = []\<rparr>)
   \<and> exit_status (fst (script table_store
        (host_without_sdk\<lparr>check_call := Some (OtherException ''pip failed'')\<rparr>) [])) = 1"
proof -
  let ?h = "host_without_sdk\<lparr>check_call := Some (OtherException ''pip failed'')\<rparr>"
  have 1: "import_boto3 host_without_sdk = Some (ImportError ''No module named boto3'')"
    "check_call host_without_sdk = None"
    "executable host_without_sdk = ''/usr/bin/python3''"
    by (simp_all add: host_without_sdk_def)
  have 2: "import_boto3 ?h = Some (ImportError ''No module named boto3'')"
    "check_call ?h = Some (OtherException ''pip failed'')"
    "executable ?h = ''/usr/bin/python3''"
    by (simp_all add: host_without_sdk_def)
  have tr: "trace (snd (script table_store host_without_sdk [])) =
     [Import, Subprocess [''/usr/bin/python3'', ''-m'', ''pip'', ''install'', ''boto3''],
      Import, NewClient dynamodb_config, Request (CreateTable create_table_args),
      Request (UpdateTimeToLive update_time_to_live_args)]"
    by (simp add: script_def import_block_def try_block_def call_def print_def
        record_event_def initial_def subscript_def explode_literal table_description_field_def
        host_without_sdk_def table_response_def create_table_args_def
        update_time_to_live_args_def)
  have st: "exit_status (Unhandled (OtherException ''pip failed'')) = 1"
    by simp
  show ?thesis
    using missing_sdk_one_install [where ep = table_store and d = "[]", OF 1(1)]
      missing_sdk_one_install [where ep = table_store and d = "[]", OF 2(1)] 1 2 tr st
    by simp
qed

text \<open>
  C10. The client is constructed before the \<open>try\<close> block. On a run where the import block is
  passed and the construction of the client raises, the exception is handled by no clause:
  the process ends on it, not through \<open>sys.exit(1)\<close>; no request is sent; and the output is
  empty or the one line that announces the installation of the SDK, so none of the lines of
  the \<open>except\<close> clauses (lines 63, 67 and 70) is printed.
\<close>

theorem client_construction_failure_unhandled:
  assumes "fst (import_block h (initial d)) = None"
    and "boto3_client h = Some e"
  shows "script ep h d =
           (Unhandled e,
            record_event (NewClient dynamodb_config) (snd (import_block h (initial d))))
    \<and> (stdout (snd (script ep h d)) = [] \<or> stdout (snd (script ep h d)) = [msg_not_installed])
    \<and> requests (trace (snd (script ep h d))) = []
    \<and> fst (script ep h d) \<noteq> SysExit 1
    \<and> (\<forall>line \<in> set (stdout (snd (script ep h d))).
          line \<noteq> msg_exists \<and> \<not> prefix (cross_mark @ '' Error: '') line \<and>
          \<not> prefix (cross_mark @ '' Unexpected error: '') line)"
proof -
  obtain w where w: "import_block h (initial d) = (None, w)"
    using assms(1) by (cases "import_block h (initial d)") simp
  have run: "script ep h d = (Unhandled e, record_event (NewClient dynamodb_config) w)"
    using w assms(2) by (simp add: script_def)
  have out: "stdout w = [] \<or> stdout w = [msg_not_installed]"
    using import_block_stdout [of h "initial d"] w by (simp add: initial_def)
  obtain deps where "trace w = deps" "requests deps = []"
    using import_block_trace [of h "initial d"] w by (auto simp: initial_def)
  then have req: "requests (trace (record_event (NewClient dynamodb_config) w)) = []"
    by (simp add: record_event_def requests_append)
  have msg: "msg_not_installed \<noteq> msg_exists"
    "\<not> prefix (cross_mark @ '' Error: '') msg_not_installed"
    "\<not> prefix (cross_mark @ '' Unexpected error: '') msg_not_installed"
    by (simp_all add: msg_not_installed_def msg_exists_def cross_mark_def warning_sign_def)
  show ?thesis
    using run out req msg w by (auto simp: record_event_def)
qed

text \<open>The run on a host that installs the SDK and fails to construct the client.\<close>

theorem client_construction_failure_unhandled_witness:
  "script table_store
     (host_without_sdk\<lparr>boto3_client := Some (OtherException ''Invalid endpoint'')\<rparr>) [] =
     (Unhandled (OtherException ''Invalid endpoint''),
      \<lparr>stdout = [msg_not_installed],
       trace =
         [Import, Subprocess [''/usr/bin/python3'', ''-m'', ''pip'', ''install'', ''boto3''],
          Import, NewClient dynamodb_config],
       db = []\<rparr>)
   \<and> requests (trace (snd (script table_store
        (host_without_sdk\<lparr>boto3_client := Some (OtherException ''Invalid endpoint'')\<rparr>) [])))
      = []"
proof -
  let ?h = "host_without_sdk\<lparr>boto3_client := Some (OtherException ''Invalid endpoint'')\<rparr>"
  have ib: "import_block ?h (initial []) =
      (None,
       \<lparr>stdout = [msg_not_installed],
        trace =
          [Import, Subprocess [''/usr/bin/python3'', ''-m'', ''pip'', ''install'', ''boto3''],
           Import],
        db = []\<rparr>)"
    by (simp add: import_block_def host_without_sdk_def initial_def record_event_def print_def)
  have 1: "fst (import_block ?h (initial [])) = None"
    by (simp add: ib)
  have 2: "boto3_client ?h = Some (OtherException ''Invalid endpoint'')"
    by simp
  show ?thesis
    using client_construction_failure_unhandled [where ep = table_store, OF 1 2]
    by (simp add: ib record_event_def)
qed


subsection \<open>A failure of the call that enables TTL\<close>

text \<open>
  The \<open>except\<close> clauses do not know which of the two calls raised. A \<open>ClientError\<close> of the call
  that enables TTL goes through the test of line 62 like one of the call that creates the
  table: with any code but \<open>ResourceInUseException\<close> the script prints the error and exits
  with status 1, with that code it prints that the table exists and reaches the end of the
  module.
\<close>

lemma ttl_service_error:
  assumes "fst (import_block h (initial d)) = None"
    and "boto3_client h = None"
    and "ep (CreateTable create_table_args) d = (Inr response, d1)"
    and "response ''TableDescription'' = Some td"
    and "td ''TableArn'' = Some arn"
    and "td ''TableStatus'' = Some status"
    and "ep (UpdateTimeToLive update_time_to_live_args) d1 = (Inl (ClientError r m), d2)"
    and "r ''Error'' = Some err"
    and "err ''Code'' = Some code"
  shows "fst (script ep h d) =
           (if code = ''ResourceInUseException'' then Finished else SysExit 1)
    \<and> last (stdout (snd (script ep h d))) =
           (if code = ''ResourceInUseException'' then msg_delete_hint
            else cross_mark @ '' Error: '' @ m)"
proof -
  obtain w where w: "import_block h (initial d) = (None, w)"
    using assms(1) by (cases "import_block h (initial d)") simp
  have "db w = d"
    using import_block_db [of h "initial d"] w by (simp add: initial_def)
  then show ?thesis
    using assms(2-) w
    by (simp add: script_def try_block_def except_block_def call_def print_def
        record_event_def subscript_def explode_literal table_description_field_def)
qed


text \<open>
  C5. The claim reads: when the table was created and the call that enables TTL fails, with
  any failure, the error is printed and the process exits with status 1. The run below is one
  where it does not: the endpoint creates the table (status \<open>CREATING\<close>) and answers the
  request to enable TTL with a \<open>ClientError\<close> of code \<open>ResourceInUseException\<close>. The script
  prints that the table was created, then that the table already exists, prints no error,
  and ends with status 0, with TTL not enabled.
\<close>

theorem ttl_resource_in_use_reported_as_existing_table:
  "script canned host_with_sdk
     [Inr [''TableDescription'' \<mapsto>
             [''TableArn'' \<mapsto> ''arn:aws:dynamodb:us-east-1:000000000000:table/rag-document-locks'',
              ''TableStatus'' \<mapsto> ''CREATING'']],
      Inl (ClientError (error_response ''ResourceInUseException'')
             ''Table is being created: rag-document-locks'')] =
     (Finished,
      \<lparr>stdout =
         [msg_creating, msg_created,
          ''   Table ARN: arn:aws:dynamodb:us-east-1:000000000000:table/rag-document-locks'',
          ''   Status: CREATING'', msg_enabling, msg_exists, msg_to_delete, msg_delete_hint],
       trace =
         [Import, NewClient dynamodb_config, Request (CreateTable create_table_args),
          Request (UpdateTimeToLive update_time_to_live_args)],
       db = []\<rparr>)
   \<and> exit_status (fst (script canned host_with_sdk
       [Inr [''TableDescription'' \<mapsto>
               [''TableArn'' \<mapsto> ''arn:aws:dynamodb:us-east-1:000000000000:table/rag-document-locks'',
                ''TableStatus'' \<mapsto> ''CREATING'']],
        Inl (ClientError (error_response ''ResourceInUseException'')
               ''Table is being created: rag-document-locks'')])) = 0"
  by (simp add: script_def import_block_def try_block_def except_block_def call_def
      print_def record_event_def initial_def subscript_def explode_literal table_description_field_def
      host_with_sdk_def error_response_def)

subsection \<open>Two runs in a row\<close>

lemma table_store_ttl_keeps:
  "map_of tables n \<noteq> None \<Longrightarrow>
   map_of (snd (table_store (UpdateTimeToLive a) tables)) n \<noteq> None"
proof -
  have "fst ` set (map (\<lambda>t. if fst t = k then (fst t, v) else t) tables) = fst ` set tables"
    for k :: string and v :: "string option"
    by (induction tables) auto
  then show "map_of tables n \<noteq> None \<Longrightarrow>
      map_of (snd (table_store (UpdateTimeToLive a) tables)) n \<noteq> None"
    by (simp add: map_of_eq_None_iff)
qed


text \<open>
  C7. Two runs against one endpoint, the second starting in the state the first one left.
  The endpoint is one that keeps its tables the way the handler of line 62 expects: a table
  it has created is there afterwards (\<open>has_table\<close>), a request to enable TTL removes no
  table, and a request to create a table that is there is refused with a \<open>ClientError\<close> of
  code \<open>ResourceInUseException\<close> and changes nothing. When the first run takes the success
  path (the table is created, TTL is enabled, the module ends) and the second run reaches
  the \<open>try\<close> block, the second run prints the warning that the table exists and the hint,
  sends the request to create the table and no other (none to enable TTL, none to delete),
  leaves the state of the endpoint as it found it, and ends with status 0.
\<close>

theorem second_run_changes_nothing:
  fixes has_table :: "string \<Rightarrow> 's \<Rightarrow> bool"
  assumes created: "\<And>a s r s'. ep (CreateTable a) s = (Inr r, s') \<Longrightarrow> has_table (ct_TableName a) s'"
    and kept: "\<And>a s n. has_table n s \<Longrightarrow> has_table n (snd (ep (UpdateTimeToLive a) s))"
    and refused: "\<And>a s. has_table (ct_TableName a) s \<Longrightarrow>
          \<exists>r m err. ep (CreateTable a) s = (Inl (ClientError r m), s) \<and>
            r ''Error'' = Some err \<and> err ''Code'' = Some ''ResourceInUseException''"
    and host1: "fst (import_block ha (initial d)) = None" "boto3_client ha = None"
    and run1: "ep (CreateTable create_table_args) d = (Inr response, d1)"
      "response ''TableDescription'' = Some td" "td ''TableArn'' = Some arn"
      "td ''TableStatus'' = Some status"
      "ep (UpdateTimeToLive update_time_to_live_args) d1 = (Inr r, d2)"
    and host2: "fst (import_block hb (initial d2)) = None" "boto3_client hb = None"
  shows "fst (script ep ha d) = Finished
    \<and> msg_ttl_enabled \<in> set (stdout (snd (script ep ha d)))
    \<and> db (snd (script ep ha d)) = d2
    \<and> fst (script ep hb (db (snd (script ep ha d)))) = Finished
    \<and> exit_status (fst (script ep hb (db (snd (script ep ha d))))) = 0
    \<and> stdout (snd (script ep hb (db (snd (script ep ha d))))) =
        stdout (snd (import_block hb (initial d2))) @
        [msg_creating, msg_exists, msg_to_delete, msg_delete_hint]
    \<and> requests (trace (snd (script ep hb (db (snd (script ep ha d)))))) =
        [CreateTable create_table_args]
    \<and> db (snd (script ep hb (db (snd (script ep ha d))))) = db (snd (script ep ha d))"
proof -
  obtain w1 where w1: "import_block ha (initial d) = (None, w1)"
    using host1(1) by (cases "import_block ha (initial d)") simp
  have "db w1 = d"
    using import_block_db [of ha "initial d"] w1 by (simp add: initial_def)
  then have first: "fst (script ep ha d) = Finished"
    "msg_ttl_enabled \<in> set (stdout (snd (script ep ha d)))"
    "db (snd (script ep ha d)) = d2"
    using host1(2) run1 w1
    by (simp_all add: script_def try_block_def call_def print_def record_event_def
        subscript_def explode_literal table_description_field_def)
  have "has_table (ct_TableName create_table_args) d1"
    using created [OF run1(1)] .
  then have "has_table (ct_TableName create_table_args) d2"
    using kept [of "ct_TableName create_table_args" d1 update_time_to_live_args] run1(5)
    by simp
  then obtain r2 m2 err2 where second:
    "ep (CreateTable create_table_args) d2 = (Inl (ClientError r2 m2), d2)"
    "r2 ''Error'' = Some err2" "err2 ''Code'' = Some ''ResourceInUseException''"
    using refused by blast
  obtain w2 where w2: "import_block hb (initial d2) = (None, w2)"
    using host2(1) by (cases "import_block hb (initial d2)") simp
  have dbw2: "db w2 = d2"
    using import_block_db [of hb "initial d2"] w2 by (simp add: initial_def)
  obtain deps where deps: "trace w2 = deps" "requests deps = []"
    using import_block_trace [of hb "initial d2"] w2 by (auto simp: initial_def)
  have "fst (script ep hb d2) = Finished"
    "exit_status (fst (script ep hb d2)) = 0"
    "stdout (snd (script ep hb d2)) =
        stdout (snd (import_block hb (initial d2))) @
        [msg_creating, msg_exists, msg_to_delete, msg_delete_hint]"
    "requests (trace (snd (script ep hb d2))) = [CreateTable create_table_args]"
    "db (snd (script ep hb d2)) = d2"
    using host2(2) second w2 dbw2 deps
    by (simp_all add: script_def try_block_def except_block_def call_def print_def
        record_event_def subscript_def explode_literal requests_append)
  with first show ?thesis by simp
qed

text \<open>Two runs against the table store, which meets the three conditions: the first on a host
  that installs the SDK, the second on the host that then has it.\<close>

theorem second_run_changes_nothing_witness:
  "script table_store host_without_sdk [] =
     (Finished,
      \<lparr>stdout =
         [msg_not_installed, msg_creating, msg_created,
          ''   Table ARN: arn:aws:dynamodb:ddblocal:000000000000:table/rag-document-locks'',
          ''   Status: ACTIVE'', msg_enabling, msg_ttl_enabled, msg_ready, msg_to_verify,
          msg_verify_hint],
       trace =
         [Import, Subprocess [''/usr/bin/python3'', ''-m'', ''pip'', ''install'', ''boto3''],
          Import, NewClient dynamodb_config, Request (CreateTable create_table_args),
          Request (UpdateTimeToLive update_time_to_live_args)],
       db = [(''rag-document-locks'', Some ''expires_at'')]\<rparr>)
   \<and> fst (script table_store host_with_sdk
          (db (snd (script table_store host_without_sdk [])))) = Finished
   \<and> exit_status (fst (script table_store host_with_sdk
          (db (snd (script table_store host_without_sdk []))))) = 0
   \<and> stdout (snd (script table_store host_with_sdk
          (db (snd (script table_store host_without_sdk []))))) =
        [msg_creating, msg_exists, msg_to_delete, msg_delete_hint]
   \<and> requests (trace (snd (script table_store host_with_sdk
          (db (snd (script table_store host_without_sdk [])))))) =
        [CreateTable create_table_args]
   \<and> db (snd (script table_store host_with_sdk
          (db (snd (script table_store host_without_sdk []))))) =
        [(''rag-document-locks'', Some ''expires_at'')]"
proof -
  let ?td = "[''TableName'' \<mapsto> ''rag-document-locks'',
            ''TableArn'' \<mapsto>
              ''arn:aws:dynamodb:ddblocal:000000000000:table/rag-document-locks'',
            ''TableStatus'' \<mapsto> ''ACTIVE'']"
  let ?d2 = "[(''rag-document-locks'', Some ''expires_at'')]"
  have created: "\<And>a s r s'. table_store (CreateTable a) s = (Inr r, s') \<Longrightarrow>
      map_of s' (ct_TableName a) \<noteq> None"
    by (auto split: if_splits)
  have kept: "\<And>a s n. map_of s n \<noteq> None \<Longrightarrow>
      map_of (snd (table_store (UpdateTimeToLive a) s)) n \<noteq> None"
    by (rule table_store_ttl_keeps)
  have refused: "\<And>a s. map_of s (ct_TableName a) \<noteq> None \<Longrightarrow>
      \<exists>r m err. table_store (CreateTable a) s = (Inl (ClientError r m), s) \<and>
        r ''Error'' = Some err \<and> err ''Code'' = Some ''ResourceInUseException''"
    by (auto simp: error_response_def)
  have ib1: "import_block host_without_sdk (initial []) =
      (None,
       \<lparr>stdout = [msg_not_installed],
        trace =
          [Import, Subprocess [''/usr/bin/python3'', ''-m'', ''pip'', ''install'', ''boto3''],
           Import],
        db = []\<rparr>)"
    by (simp add: import_block_def host_without_sdk_def initial_def record_event_def print_def)
  have h1: "fst (import_block host_without_sdk (initial [])) = None"
    "boto3_client host_without_sdk = None"
    by (simp_all add: ib1) (simp add: host_without_sdk_def)
  have r1: "table_store (CreateTable create_table_args) [] =
      (Inr (table_response ''rag-document-locks''), [(''rag-document-locks'', None)])"
    by (simp add: create_table_args_def)
  have r2: "table_response ''rag-document-locks'' ''TableDescription'' = Some ?td"
    by (simp add: table_response_def)
  have r3: "?td ''TableArn'' =
      Some ''arn:aws:dynamodb:ddblocal:000000000000:table/rag-document-locks''"
    by simp
  have r4: "?td ''TableStatus'' = Some ''ACTIVE''"
    by simp
  have r5: "table_store (UpdateTimeToLive update_time_to_live_args)
             [(''rag-document-locks'', None)] = (Inr Map.empty, ?d2)"
    by (simp add: update_time_to_live_args_def)
  have ib2: "import_block host_with_sdk (initial ?d2) =
      (None, \<lparr>stdout = [], trace = [Import], db = ?d2\<rparr>)"
    by (simp add: import_block_def host_with_sdk_def initial_def record_event_def)
  have h2: "fst (import_block host_with_sdk (initial ?d2)) = None"
    "boto3_client host_with_sdk = None"
    by (simp_all add: ib2) (simp add: host_with_sdk_def)
  have run1: "script table_store host_without_sdk [] =
     (Finished,
      \<lparr>stdout =
         [msg_not_installed, msg_creating, msg_created,
          ''   Table ARN: arn:aws:dynamodb:ddblocal:000000000000:table/rag-document-locks'',
          ''   Status: ACTIVE'', msg_enabling, msg_ttl_enabled, msg_ready, msg_to_verify,
          msg_verify_hint],
       trace =
         [Import, Subprocess [''/usr/bin/python3'', ''-m'', ''pip'', ''install'', ''boto3''],
          Import, NewClient dynamodb_config, Request (CreateTable create_table_args),
          Request (UpdateTimeToLive update_time_to_live_args)],
       db = ?d2\<rparr>)"
    by (simp add: script_def import_block_def try_block_def call_def print_def
        record_event_def initial_def subscript_def explode_literal table_description_field_def
        host_without_sdk_def table_response_def create_table_args_def
        update_time_to_live_args_def)
  show ?thesis
    using second_run_changes_nothing
      [where ep = table_store and has_table = "\<lambda>n s. map_of s n \<noteq> None"
         and response = "table_response ''rag-document-locks''" and td = ?td
         and ha = host_without_sdk and hb = host_with_sdk,
       OF created kept refused h1 r1 r2 r3 r4 r5 h2]
    by (simp add: run1 ib2)
qed

end
